theory Spec2Isabelle
  imports Complex_Main "HOL-Library.Product_Lexorder" "HOL-Library.List_Lexorder"
    "HOL-Library.Char_ord" "HOL-Library.Multiset" "HOL-Library.AList"
begin

section \<open>Common Python values\<close>

text \<open>
  Exceptions of the modelled Python code are values: a function that can raise returns
  \<open>py_error + 'a\<close>, with \<open>Inl\<close> the exception.
\<close>

datatype py_error =
    TypeError
  | ZeroDivisionError
  | AttributeError
  | OtherException string

text \<open>
  A Python \<open>float\<close> argument that the code tests with \<open>math.isnan\<close> and
  \<open>math.isinf\<close>. Finite floats are represented by the real number they denote
  (rounding and overflow of IEEE arithmetic are not part of the model).
\<close>

datatype pyfloat = Fin real | PInf | NInf | NaN

fun isnan :: "pyfloat \<Rightarrow> bool" where
  "isnan NaN = True"
| "isnan _ = False"

fun isinf :: "pyfloat \<Rightarrow> bool" where
  "isinf PInf = True"
| "isinf NInf = True"
| "isinf _ = False"

text \<open>A package tuple is \<open>(name, version, index_url)\<close>.\<close>

type_synonym package_tuple = "string \<times> string \<times> string"

section \<open>run.py: \<open>subprocess_run\<close>\<close>

text \<open>
  The values stored in \<open>result_dict\<close> (a \<open>Dict[str, Any]\<close>): booleans, strings,
  \<open>None\<close> and the report dictionary, whose type \<open>'r\<close> is left open.
\<close>

datatype 'r pyvalue = VBool bool | VStr string | VNone | VReport 'r

type_synonym 'r result_dict = "string \<rightharpoonup> 'r pyvalue"

definition OOM_MSG :: string where
  "OOM_MSG = ''Adviser was killed as allocated memory has been exceeded (OOM)''"

definition CPU_MSG :: string where
  "CPU_MSG = ''Adviser was killed as allocated CPU time was exceeded''"

definition UNKNOWN_MSG :: string where
  "UNKNOWN_MSG = ''Unknown error during computing advises''"

text \<open>
  How a call of \<open>subprocess_run\<close> ends in the process that runs it: the parent returns
  an integer, the child leaves through \<open>sys.exit\<close>.
\<close>

datatype proc_end = Returns int | SysExit int

text \<open>
  What one process observes of a call: the final \<open>result_dict\<close>, the dictionaries handed
  to \<open>print_func\<close> (in order), and how the call ended.
\<close>

record 'r run_outcome =
  ro_result_dict :: "'r result_dict"
  ro_printed :: "'r result_dict list"
  ro_end :: proc_end

text \<open>
  The child branch (\<open>pid == 0\<close>). \<open>asa\<close> is the outcome of calling \<open>asa()\<close>: the
  report's \<open>to_dict()\<close> or the exception raised (with its \<open>str\<close>). A failure of
  \<open>plot_history\<close> is caught and logged, so it does not influence the outcome.
\<close>

definition subprocess_run_child ::
  "(string + 'r) \<Rightarrow> 'r result_dict \<Rightarrow> 'r run_outcome" where
  "subprocess_run_child asa result_dict =
     (case asa of
        Inr report \<Rightarrow>
          (let rd = result_dict(''error'' \<mapsto> VBool False, ''error_msg'' \<mapsto> VNone,
                                ''report'' \<mapsto> VReport report)
           in \<lparr>ro_result_dict = rd, ro_printed = [rd], ro_end = SysExit 0\<rparr>)
      | Inl exc \<Rightarrow>
          (let rd = result_dict(''error'' \<mapsto> VBool True, ''error_msg'' \<mapsto> VStr exc,
                                ''report'' \<mapsto> VNone)
           in \<lparr>ro_result_dict = rd, ro_printed = [], ro_end = SysExit 1\<rparr>))"

text \<open>
  How the forked child process terminates: it exits with an exit code (its own
  \<open>sys.exit\<close>), or it is killed by a signal (the OOM killer and the liveness probe send
  one), with or without a core file.
\<close>

datatype child_termination = Exited int | Signaled int bool

text \<open>
  The second component of \<open>os.waitpid(pid, 0)\<close>: the exit status indication, a 16-bit
  number whose high byte is the exit code when the child exited, and whose low byte is
  the number of the signal that killed it, with the high bit of the low byte set when a
  core file was produced.
\<close>

definition waitpid_status :: "child_termination \<Rightarrow> int" where
  "waitpid_status child =
     (case child of
        Exited code \<Rightarrow> (code mod 256) * 256
      | Signaled signal core \<Rightarrow> signal mod 128 + (if core then 128 else 0))"

text \<open>
  The parent branch after \<open>_, exit_code = os.waitpid(pid, 0)\<close>. \<open>kill_file\<close> is the
  value of \<open>os.path.isfile(_LIVENESS_PROBE_KILL_FILE)\<close>.
\<close>

definition subprocess_run_parent ::
  "int \<Rightarrow> bool \<Rightarrow> 'r result_dict \<Rightarrow> 'r run_outcome" where
  "subprocess_run_parent exit_code kill_file result_dict =
     (if exit_code \<noteq> 0 then
        (let err_msg = (if exit_code = 137 then OOM_MSG
                        else if kill_file then CPU_MSG
                        else UNKNOWN_MSG);
             rd = result_dict(''error'' \<mapsto> VBool True, ''error_msg'' \<mapsto> VStr err_msg,
                              ''report'' \<mapsto> VNone)
         in \<lparr>ro_result_dict = rd, ro_printed = [rd], ro_end = Returns exit_code\<rparr>)
      else \<lparr>ro_result_dict = result_dict, ro_printed = [], ro_end = Returns exit_code\<rparr>)"

text \<open>
  \<open>subprocess_run\<close> after \<open>os.fork()\<close> has returned \<open>pid\<close> in the running process.
  \<open>child\<close> is how the child process terminates; only the parent learns of it, through
  \<open>os.waitpid\<close>.
\<close>

definition subprocess_run ::
  "int \<Rightarrow> (string + 'r) \<Rightarrow> child_termination \<Rightarrow> bool \<Rightarrow> 'r result_dict
     \<Rightarrow> 'r run_outcome" where
  "subprocess_run pid asa child kill_file result_dict =
     (if pid = 0 then subprocess_run_child asa result_dict
      else (let exit_code = waitpid_status child
            in subprocess_run_parent exit_code kill_file result_dict))"

section \<open>Python's \<open>heapq\<close> on lists\<close>

text \<open>
  \<open>advise.py\<close> keeps its stacks in a list managed by \<open>heapq.heappush\<close> and
  \<open>heapq.heappushpop\<close>. The functions below follow \<open>Lib/heapq.py\<close>: the heap is the
  list itself, items are compared with \<open><\<close>. Every index used is inside the list
  (\<open>heappush\<close> sifts the index it has just appended, \<open>heappushpop\<close> touches index 0 of a
  non-empty list only).
\<close>

function siftdown_loop :: "'a::linorder list \<Rightarrow> nat \<Rightarrow> nat \<Rightarrow> 'a \<Rightarrow> 'a list" where
  "siftdown_loop heap startpos pos newitem =
     (if pos > startpos then
        (let parentpos = (pos - 1) div 2;
             parent = heap ! parentpos
         in if newitem < parent
            then siftdown_loop (heap[pos := parent]) startpos parentpos newitem
            else heap[pos := newitem])
      else heap[pos := newitem])"
  by pat_completeness auto
termination
  by (relation "measure (\<lambda>(heap, startpos, pos, newitem). pos)") auto

definition siftdown :: "'a::linorder list \<Rightarrow> nat \<Rightarrow> nat \<Rightarrow> 'a list" where
  "siftdown heap startpos pos = siftdown_loop heap startpos pos (heap ! pos)"

text \<open>
  The loop of \<open>_siftup\<close>: it moves the smaller child up until a leaf is reached and
  returns the list with the position of the hole.
\<close>

function siftup_loop :: "'a::linorder list \<Rightarrow> nat \<Rightarrow> 'a list \<times> nat" where
  "siftup_loop heap pos =
     (if 2 * pos + 1 < length heap then
        (let childpos = 2 * pos + 1;
             rightpos = childpos + 1;
             childpos = (if rightpos < length heap \<and> \<not> heap ! childpos < heap ! rightpos
                         then rightpos else childpos)
         in siftup_loop (heap[pos := heap ! childpos]) childpos)
      else (heap, pos))"
  by pat_completeness auto
termination
  by (relation "measure (\<lambda>(heap, pos). length heap - pos)") (auto simp: Let_def)

definition siftup :: "'a::linorder list \<Rightarrow> nat \<Rightarrow> 'a list" where
  "siftup heap pos =
     (let newitem = heap ! pos;
          (heap', pos') = siftup_loop heap pos
      in siftdown (heap'[pos' := newitem]) pos pos')"

definition heappush :: "'a::linorder list \<Rightarrow> 'a \<Rightarrow> 'a list" where
  "heappush heap item = siftdown (heap @ [item]) 0 (length heap)"

text \<open>\<open>heappushpop\<close> returns the list and the item it hands back.\<close>

definition heappushpop :: "'a::linorder list \<Rightarrow> 'a \<Rightarrow> 'a list \<times> 'a" where
  "heappushpop heap item =
     (if heap \<noteq> [] \<and> heap ! 0 < item
      then (siftup (heap[0 := item]) 0, heap ! 0)
      else (heap, item))"

section \<open>advise.py: \<open>Adviser\<close>\<close>

datatype recommendation_type = LATEST | STABLE | TESTING | PERFORMANCE | SECURITY

text \<open>
  The attributes of an \<open>Adviser\<close>. \<open>count\<close> and \<open>limit\<close> default to \<open>None\<close>. A heap
  item is the tuple \<open>(score, (reasoning, generated_project))\<close>; Python compares tuples
  lexicographically, which is the order of pairs used here. The types \<open>'r\<close> of the
  reasoning and \<open>'p\<close> of the generated project are left open and are compared by their
  own order when two scores are equal.
\<close>

record ('r, 'p) adviser =
  a_recommendation_type :: recommendation_type
  a_count :: "int option"
  a_limit :: "int option"
  a_computed_stacks_heap :: "(real \<times> 'r \<times> 'p) list"
  a_visited :: int

text \<open>
  What \<open>dependency_graph.walk(self._decision_function)\<close> yields: pairs
  \<open>((score, reasoning), generated_project)\<close>.
\<close>

type_synonym ('r, 'p) walk_item = "(real \<times> 'r) \<times> 'p"

text \<open>
  One round of the \<open>for\<close> loop of \<open>compute\<close>. The result is the adviser after the round
  and either an exception, or whether \<open>break\<close> was taken. With \<open>limit\<close> set and
  \<open>count\<close> \<open>None\<close> the comparison \<open>self._visited >= self.count\<close> raises \<open>TypeError\<close>.
\<close>

definition compute_step ::
  "('r::linorder, 'p::linorder) adviser \<Rightarrow> ('r, 'p) walk_item
     \<Rightarrow> ('r, 'p) adviser \<times> (py_error + bool)" where
  "compute_step a y =
     (case y of ((score, reasoning), generated_project) \<Rightarrow>
        (let a1 = a\<lparr>a_visited := a_visited a + 1\<rparr>;
             item = (score, (reasoning, generated_project));
             heap = a_computed_stacks_heap a1;
             a2 = (case a_count a1 of
                     Some c \<Rightarrow>
                       if int (length heap) \<ge> c
                       then a1\<lparr>a_computed_stacks_heap := fst (heappushpop heap item)\<rparr>
                       else a1\<lparr>a_computed_stacks_heap := heappush heap item\<rparr>
                   | None \<Rightarrow> a1\<lparr>a_computed_stacks_heap := heappush heap item\<rparr>)
         in (case a_limit a2 of
               None \<Rightarrow> (a2, Inr False)
             | Some l \<Rightarrow>
                 (case a_count a2 of
                    None \<Rightarrow> (a2, Inl TypeError)
                  | Some c \<Rightarrow> (a2, Inr (a_visited a2 \<ge> c))))))"

text \<open>
  The \<open>for\<close> loop over the generator: \<open>ys\<close> are the items it yields and \<open>wend\<close> says how
  it ends once they are consumed (\<open>None\<close>: exhausted, \<open>Some e\<close>: it raises \<open>e\<close>). The
  result is the adviser at the exit of the loop and the exception that left it, if any.
\<close>

fun compute_loop ::
  "('r::linorder, 'p::linorder) adviser \<Rightarrow> ('r, 'p) walk_item list \<Rightarrow> py_error option
     \<Rightarrow> ('r, 'p) adviser \<times> py_error option" where
  "compute_loop a [] wend = (a, wend)"
| "compute_loop a (y # ys) wend =
     (case compute_step a y of
        (a', Inl e) \<Rightarrow> (a', Some e)
      | (a', Inr brk) \<Rightarrow> if brk then (a', None) else compute_loop a' ys wend)"

text \<open>The expression \<open>sorted(self._computed_stacks_heap, key=operator.itemgetter(0))\<close>.\<close>

definition sorted_stacks :: "('r, 'p) adviser \<Rightarrow> (real \<times> 'r \<times> 'p) list" where
  "sorted_stacks a = sort_key fst (a_computed_stacks_heap a)"

text \<open>
  \<open>compute\<close>. \<open>graph\<close> is the outcome of \<open>DependencyGraph.from_project(project)\<close>, called
  before the \<open>try\<close>: an exception, or the generator described by its items and its end.
  \<open>fill\<close> stands for \<open>fill_package_digests\<close>. The \<open>finally\<close> clause runs on every exit
  of the \<open>try\<close> statement. The result is what the call returns or raises, and the adviser
  it leaves behind.
\<close>

definition compute ::
  "('p \<Rightarrow> 'q) \<Rightarrow> ('r::linorder, 'p::linorder) adviser
     \<Rightarrow> py_error + (('r, 'p) walk_item list \<times> py_error option)
     \<Rightarrow> (py_error + ('r \<times> 'q) list) \<times> ('r, 'p) adviser" where
  "compute fill a graph =
     (case graph of
        Inl e \<Rightarrow> (Inl e, a)
      | Inr (ys, wend) \<Rightarrow>
          (case compute_loop a ys wend of
             (a', Some e) \<Rightarrow>
               (Inl e, a'\<lparr>a_computed_stacks_heap := [], a_visited := 0\<rparr>)
           | (a', None) \<Rightarrow>
               (Inr (map (\<lambda>item. (fst (snd item), fill (snd (snd item)))) (sorted_stacks a')),
                a'\<lparr>a_computed_stacks_heap := [], a_visited := 0\<rparr>)))"

section \<open>Predictors: state, context and the policy store\<close>

text \<open>
  Modelled from the spec: \<open>State\<close> (its module is not part of the sources at hand),
  reduced to what the predictors read: the score, and the package tuples that
  \<open>iter_resolved_dependencies()\<close> and \<open>iter_unresolved_dependencies()\<close> yield, in order.
\<close>

record state =
  score :: real
  iter_resolved_dependencies :: "package_tuple list"
  iter_unresolved_dependencies :: "package_tuple list"

text \<open>
  Modelled from the spec: the fields of \<open>Context\<close> the predictors read. They are Python
  integers.
\<close>

record adviser_context =
  iteration :: int
  accepted_final_states_count :: int
  limit :: int

text \<open>
  The policy store \<open>self._policy\<close> is a Python dictionary, declared as
  \<open>Dict[str, List[Union[float, int]]]\<close>. Its values are the records
  \<open>[reward_sum, count]\<close>. \<open>set_reward_signal\<close> stores them under package tuples,
  \<open>_do_exploitation\<close> looks a package name up, so a key is either of the two. A
  dictionary keeps its keys in insertion order: it is a list of key-value pairs with
  distinct keys, a new key is appended, and an assignment to an existing key keeps its
  place (\<open>AList.update\<close>).
\<close>

datatype policy_key = KName string | KTuple package_tuple

type_synonym policy = "(policy_key \<times> real \<times> int) list"

record temporal_difference =
  td_policy :: policy
  td_a :: real

record mcts = temporal_difference +
  next_state :: "state option"

section \<open>td.py: \<open>TemporalDifference\<close>\<close>

text \<open>
  \<open>_temperature_function\<close>. The result is the temperature returned and the predictor
  with its slope coefficient \<open>_a\<close>. Dividing by a float that is zero raises
  \<open>ZeroDivisionError\<close> in Python.
\<close>

definition temperature_function ::
  "temporal_difference \<Rightarrow> real \<Rightarrow> adviser_context \<Rightarrow> py_error + (real \<times> temporal_difference)" where
  "temperature_function self t0 ctx =
     (if accepted_final_states_count ctx = 0 then Inr (0, self)
      else if t0 = 0 \<and> accepted_final_states_count ctx = 1 then
        Inr (real_of_int (limit ctx),
             self\<lparr>td_a := 0.5 * real_of_int (iteration ctx)
                              / real_of_int (accepted_final_states_count ctx)
                              * real_of_int (limit ctx)\<rparr>)
      else if td_a self = 0 then Inl ZeroDivisionError
      else Inr (max ((- real_of_int (limit ctx) / td_a self) * real_of_int (iteration ctx)
                       + real_of_int (limit ctx)) 0,
                self))"

text \<open>
  The three statements of the loop body of \<open>set_reward_signal\<close> for one package tuple:
  \<open>record = self._policy.setdefault(package_tuple, [0.0, 0])\<close>, then both components of
  the record are increased.
\<close>

definition setdefault_record :: "policy \<Rightarrow> package_tuple \<Rightarrow> real \<times> int" where
  "setdefault_record pol package_tuple =
     (case map_of pol (KTuple package_tuple) of
        None \<Rightarrow> (0, 0)
      | Some record \<Rightarrow> record)"

definition credit_one :: "policy \<Rightarrow> package_tuple \<Rightarrow> real \<Rightarrow> policy" where
  "credit_one pol package_tuple reward =
     (let record = setdefault_record pol package_tuple
      in AList.update (KTuple package_tuple) (fst record + reward, snd record + 1) pol)"

fun credit :: "policy \<Rightarrow> package_tuple list \<Rightarrow> real \<Rightarrow> policy" where
  "credit pol [] reward = pol"
| "credit pol (package_tuple # rest) reward =
     credit (credit_one pol package_tuple reward) rest reward"

text \<open>
  A slice \<open>xs[:n]\<close>: the first \<open>n\<close> items, and for a negative \<open>n\<close> all but the last
  \<open>-n\<close>.
\<close>

definition slice_to :: "int \<Rightarrow> 'a list \<Rightarrow> 'a list" where
  "slice_to n xs = (if 0 \<le> n then take (nat n) xs else take (nat (int (length xs) + n)) xs)"

text \<open>
  \<open>dict(sorted(self._policy.items(), key=operator.itemgetter(1), reverse=True)[:policy_size])\<close>.
  The key of an item is its record; two records compare as lists, first by the reward
  sum, then by the count. A sort with \<open>reverse=True\<close> keeps items with equal keys in
  their order: it is the stable ascending sort of the reversed list, reversed. The items
  of a dictionary have distinct keys, so \<open>dict\<close> of part of them is that part.
\<close>

definition sorted_reverse :: "policy \<Rightarrow> policy" where
  "sorted_reverse pol = rev (sort_key snd (rev pol))"

definition shrink :: "int \<Rightarrow> policy \<Rightarrow> policy" where
  "shrink policy_size pol = slice_to policy_size (sorted_reverse pol)"

text \<open>
  \<open>TemporalDifference.set_reward_signal\<close>. \<open>TD_POLICY_SIZE\<close> is the module constant read
  from \<open>THOTH_TD_POLICY_SIZE\<close> (0 when unset), \<open>ctx\<close> is \<open>self.context\<close>.
\<close>

definition td_set_reward_signal ::
  "int \<Rightarrow> adviser_context \<Rightarrow> temporal_difference \<Rightarrow> state \<Rightarrow> pyfloat \<Rightarrow> temporal_difference" where
  "td_set_reward_signal TD_POLICY_SIZE ctx self st reward =
     (if isnan reward \<or> isinf reward then self
      else (case reward of
              Fin r \<Rightarrow>
                (let self1 = self\<lparr>td_policy :=
                                    credit (td_policy self) (iter_resolved_dependencies st) r\<rparr>
                 in if TD_POLICY_SIZE \<noteq> 0 \<and> iteration ctx mod 1024 = 0
                    then self1\<lparr>td_policy := shrink TD_POLICY_SIZE (td_policy self1)\<rparr>
                    else self1)
            | _ \<Rightarrow> self))"

text \<open>
  The lookup \<open>self._policy.get(package_tuple[0], {}).get(package_tuple)\<close> of
  \<open>_do_exploitation\<close>: the outer \<open>get\<close> is by package name. When the name is not a key
  the inner \<open>get\<close> is on the empty dictionary; when it is, the value found is a record (a
  list), which has no \<open>get\<close>.
\<close>

definition reward_records_of :: "policy \<Rightarrow> package_tuple \<Rightarrow> py_error + (real \<times> int) option" where
  "reward_records_of pol package_tuple =
     (case map_of pol (KName (fst package_tuple)) of
        None \<Rightarrow> Inr (map_of [] package_tuple)
      | Some record \<Rightarrow> Inl AttributeError)"

text \<open>
  The loop of \<open>_do_exploitation\<close> with its two variables \<open>to_resolve_average\<close> and
  \<open>to_resolve_package_tuple\<close>.
\<close>

fun exploitation_loop ::
  "policy \<Rightarrow> package_tuple list \<Rightarrow> real option \<Rightarrow> package_tuple option
     \<Rightarrow> py_error + (real option \<times> package_tuple option)" where
  "exploitation_loop pol [] to_resolve_average to_resolve_package_tuple =
     Inr (to_resolve_average, to_resolve_package_tuple)"
| "exploitation_loop pol (package_tuple # rest) to_resolve_average to_resolve_package_tuple =
     (case reward_records_of pol package_tuple of
        Inl e \<Rightarrow> Inl e
      | Inr None \<Rightarrow> exploitation_loop pol rest to_resolve_average to_resolve_package_tuple
      | Inr (Some reward_records) \<Rightarrow>
          if snd reward_records = 0 then Inl ZeroDivisionError
          else
            (let average = fst reward_records / real_of_int (snd reward_records)
             in if (case to_resolve_average of None \<Rightarrow> True | Some t \<Rightarrow> t < average)
                then exploitation_loop pol rest (Some average) (Some package_tuple)
                else exploitation_loop pol rest to_resolve_average to_resolve_package_tuple))"

text \<open>
  \<open>_do_exploitation\<close>. \<open>st\<close> is the state \<open>self.context.beam.max()\<close> returns, and
  \<open>get_random_unresolved_dependency\<close> stands for the method of that name called with
  \<open>prefer_recent=True\<close>. A package tuple has three components, so it is never false in
  the \<open>or\<close>.
\<close>

definition do_exploitation ::
  "(state \<Rightarrow> package_tuple) \<Rightarrow> temporal_difference \<Rightarrow> state
     \<Rightarrow> py_error + (state \<times> package_tuple)" where
  "do_exploitation get_random_unresolved_dependency self st =
     (case exploitation_loop (td_policy self) (iter_unresolved_dependencies st) None None of
        Inl e \<Rightarrow> Inl e
      | Inr (to_resolve_average, Some to_resolve_package_tuple) \<Rightarrow>
          Inr (st, to_resolve_package_tuple)
      | Inr (to_resolve_average, None) \<Rightarrow>
          Inr (st, get_random_unresolved_dependency st))"

section \<open>mcts.py: \<open>MCTS\<close>\<close>

text \<open>
  The statements of \<open>MCTS.set_reward_signal\<close> after its \<open>if\<close> statement: the policy is
  credited with \<open>state.score\<close>, \<open>_next_state\<close> is cleared and the policy is shrunk when
  due.
\<close>

definition mcts_mark_terminal :: "int \<Rightarrow> adviser_context \<Rightarrow> mcts \<Rightarrow> state \<Rightarrow> mcts" where
  "mcts_mark_terminal MCTS_POLICY_SIZE ctx self st =
     (let total_reward = score st;
          self1 = self\<lparr>td_policy :=
                         credit (td_policy self) (iter_resolved_dependencies st) total_reward\<rparr>;
          self2 = self1\<lparr>next_state := None\<rparr>
      in if MCTS_POLICY_SIZE \<noteq> 0 \<and> iteration ctx mod 1024 = 0
         then self2\<lparr>td_policy := shrink MCTS_POLICY_SIZE (td_policy self2)\<rparr>
         else self2)"

text \<open>
  \<open>MCTS.set_reward_signal\<close>. Only the \<open>elif\<close> branch returns; the \<open>if\<close> branch goes on
  with the statements after the \<open>if\<close> statement.
\<close>

definition mcts_set_reward_signal :: "int \<Rightarrow> adviser_context \<Rightarrow> mcts \<Rightarrow> state \<Rightarrow> pyfloat \<Rightarrow> mcts" where
  "mcts_set_reward_signal MCTS_POLICY_SIZE ctx self st reward =
     (if isnan reward then
        mcts_mark_terminal MCTS_POLICY_SIZE ctx (self\<lparr>next_state := None\<rparr>) st
      else if \<not> isinf reward then self\<lparr>next_state := Some st\<rparr>
      else mcts_mark_terminal MCTS_POLICY_SIZE ctx self st)"

section \<open>prereleases.py: \<open>CutPreReleases\<close>\<close>

text \<open>
  A package version as the step reads it: the components of \<open>to_tuple()\<close> and the two
  attributes of its \<open>semantic_version\<close> that are tested, each a tuple of strings (empty
  when the version has no such component).
\<close>

record semantic_version =
  prerelease :: "string list"
  build :: "string list"

record package_version =
  pv_name :: string
  pv_locked_version :: string
  pv_index_url :: string
  pv_semantic_version :: semantic_version

definition to_tuple :: "package_version \<Rightarrow> package_tuple" where
  "to_tuple pv = (pv_name pv, pv_locked_version pv, pv_index_url pv)"

text \<open>
  Modelled from the spec: \<open>StepContext\<close> (its module is not part of the sources at
  hand), reduced to the package versions that \<open>iter_all_dependencies()\<close> yields and the
  dependency paths from which stacks are built.
\<close>

record step_context =
  sc_dependencies :: "package_version list"
  sc_paths :: "package_tuple list list"

text \<open>
  Modelled from the spec: the effect of \<open>step_context.change(graceful=False)\<close> once its
  \<open>with\<close> block is left, for the package tuples handed to
  \<open>step_change.remove_package_tuple\<close> inside the block: every package version with one
  of these tuples is gone from the context, and so is every path through one of them.
\<close>

definition remove_package_tuples :: "step_context \<Rightarrow> package_tuple list \<Rightarrow> step_context" where
  "remove_package_tuples sc removed =
     sc\<lparr>sc_dependencies := filter (\<lambda>pv. to_tuple pv \<notin> set removed) (sc_dependencies sc),
        sc_paths := filter (\<lambda>path. list_all (\<lambda>t. t \<notin> set removed) path) (sc_paths sc)\<rparr>"

text \<open>
  The step itself: \<open>self.project.prereleases_allowed\<close> and the flag
  \<open>_DEBUG_SKIP_REPORTED\<close>.
\<close>

record cut_pre_releases =
  prereleases_allowed :: bool
  DEBUG_SKIP_REPORTED :: bool

text \<open>
  The package tuples on which the loop of \<open>run\<close> calls
  \<open>step_change.remove_package_tuple\<close>, in order.
\<close>

definition tuples_to_remove :: "step_context \<Rightarrow> package_tuple list" where
  "tuples_to_remove sc =
     map to_tuple
       (filter (\<lambda>package_version.
                  prerelease (pv_semantic_version package_version) \<noteq> []
                  \<or> build (pv_semantic_version package_version) \<noteq> [])
               (sc_dependencies sc))"

definition cut_pre_releases_run ::
  "cut_pre_releases \<Rightarrow> step_context \<Rightarrow> cut_pre_releases \<times> step_context" where
  "cut_pre_releases_run self sc =
     (if prereleases_allowed self
      then (self\<lparr>DEBUG_SKIP_REPORTED := True\<rparr>, sc)
      else (self\<lparr>DEBUG_SKIP_REPORTED := False\<rparr>,
            remove_package_tuples sc (tuples_to_remove sc)))"

section \<open>What the specification asks\<close>


text \<open>
  What the specification asks of the exploitation step: among the unresolved dependencies
  that have a record in the policy store, the one with the highest average reward
  \<open>reward_sum / count\<close> (the first of them, if several share it); \<open>None\<close> when no
  unresolved dependency has a record.
\<close>

definition average_reward :: "policy \<Rightarrow> package_tuple \<Rightarrow> real option" where
  "average_reward pol package_tuple =
     (case map_of pol (KTuple package_tuple) of
        None \<Rightarrow> None
      | Some record \<Rightarrow> Some (fst record / real_of_int (snd record)))"

fun highest_average_from ::
  "policy \<Rightarrow> package_tuple list \<Rightarrow> (real \<times> package_tuple) option
     \<Rightarrow> (real \<times> package_tuple) option" where
  "highest_average_from pol [] best = best"
| "highest_average_from pol (package_tuple # rest) best =
     (case average_reward pol package_tuple of
        None \<Rightarrow> highest_average_from pol rest best
      | Some average \<Rightarrow>
          (case best of
             None \<Rightarrow> highest_average_from pol rest (Some (average, package_tuple))
           | Some b \<Rightarrow>
               if fst b < average
               then highest_average_from pol rest (Some (average, package_tuple))
               else highest_average_from pol rest best))"

definition highest_average_dependency :: "policy \<Rightarrow> state \<Rightarrow> package_tuple option" where
  "highest_average_dependency pol st =
     map_option snd (highest_average_from pol (iter_unresolved_dependencies st) None)"

text \<open>What the specification asks of the returned list: scores in descending order.\<close>

definition ordered_by_score_descending :: "(real \<times> 'a) list \<Rightarrow> bool" where
  "ordered_by_score_descending xs = sorted_wrt (\<lambda>x y. fst y \<le> fst x) xs"

section \<open>Concrete inputs\<close>

text \<open>
  An adviser as \<open>Adviser(count=3, limit=1)\<close> constructs it, and a walk that yields five
  stacks and then ends. Reasoning and project are strings here.
\<close>

definition adviser_c3_l1 :: "(string, string) adviser" where
  "adviser_c3_l1 =
     \<lparr>a_recommendation_type = LATEST, a_count = Some 3, a_limit = Some 1,
      a_computed_stacks_heap = [], a_visited = 0\<rparr>"

definition five_stacks :: "(string, string) walk_item list" where
  "five_stacks =
     [((0.5, ''r1''), ''p1''), ((0.25, ''r2''), ''p2''), ((0.75, ''r3''), ''p3''),
      ((0.125, ''r4''), ''p4''), ((0.625, ''r5''), ''p5'')]"

text \<open>\<open>Adviser(count=2)\<close>, no limit.\<close>

definition adviser_c2 :: "(string, string) adviser" where
  "adviser_c2 =
     \<lparr>a_recommendation_type = LATEST, a_count = Some 2, a_limit = None,
      a_computed_stacks_heap = [], a_visited = 0\<rparr>"

text \<open>
  Two package tuples, states that have resolved or still have to resolve them, a fresh
  predictor of each kind and a context in its first iteration.
\<close>

definition pkg_flask :: package_tuple where
  "pkg_flask = (''flask'', ''1.0.0'', ''https://pypi.org/simple'')"

definition pkg_numpy :: package_tuple where
  "pkg_numpy = (''numpy'', ''2.0.0'', ''https://pypi.org/simple'')"

definition state_flask_resolved :: state where
  "state_flask_resolved =
     \<lparr>score = 1, iter_resolved_dependencies = [pkg_flask], iter_unresolved_dependencies = []\<rparr>"

definition state_numpy_resolved :: state where
  "state_numpy_resolved =
     \<lparr>score = 5, iter_resolved_dependencies = [pkg_numpy], iter_unresolved_dependencies = []\<rparr>"

definition state_both_resolved :: state where
  "state_both_resolved =
     \<lparr>score = 2, iter_resolved_dependencies = [pkg_flask, pkg_numpy],
      iter_unresolved_dependencies = []\<rparr>"

definition state_both_unresolved :: state where
  "state_both_unresolved =
     \<lparr>score = 0, iter_resolved_dependencies = [],
      iter_unresolved_dependencies = [pkg_flask, pkg_numpy]\<rparr>"

definition td_fresh :: temporal_difference where
  "td_fresh = \<lparr>td_policy = [], td_a = 1\<rparr>"

definition mcts_fresh :: mcts where
  "mcts_fresh = \<lparr>td_policy = [], td_a = 1, next_state = None\<rparr>"

definition ctx_iteration :: "int \<Rightarrow> adviser_context" where
  "ctx_iteration i = \<lparr>iteration = i, accepted_final_states_count = 0, limit = 10000\<rparr>"

text \<open>A random choice of an unresolved dependency that falls on flask.\<close>

definition pick_flask :: "state \<Rightarrow> package_tuple" where
  "pick_flask st = pkg_flask"

text \<open>
  The predictor after two reward signals: 1 for the state that resolved flask, 5 for the
  state that resolved numpy.
\<close>

definition td_learnt :: temporal_difference where
  "td_learnt =
     td_set_reward_signal 0 (ctx_iteration 2)
       (td_set_reward_signal 0 (ctx_iteration 1) td_fresh state_flask_resolved (Fin 1))
       state_numpy_resolved (Fin 5)"

text \<open>
  A step context with \<open>foo==1.0.0rc1\<close>, \<open>foo==1.0.0\<close> and \<open>bar==2.0.0\<close>, and the
  two paths from either version of \<open>foo\<close> to \<open>bar\<close>.
\<close>

definition pv_foo_rc1 :: package_version where
  "pv_foo_rc1 =
     \<lparr>pv_name = ''foo'', pv_locked_version = ''1.0.0rc1'',
      pv_index_url = ''https://pypi.org/simple'',
      pv_semantic_version = \<lparr>prerelease = [''rc1''], build = []\<rparr>\<rparr>"

definition pv_foo :: package_version where
  "pv_foo =
     \<lparr>pv_name = ''foo'', pv_locked_version = ''1.0.0'',
      pv_index_url = ''https://pypi.org/simple'',
      pv_semantic_version = \<lparr>prerelease = [], build = []\<rparr>\<rparr>"

definition pv_bar :: package_version where
  "pv_bar =
     \<lparr>pv_name = ''bar'', pv_locked_version = ''2.0.0'',
      pv_index_url = ''https://pypi.org/simple'',
      pv_semantic_version = \<lparr>prerelease = [], build = []\<rparr>\<rparr>"

definition sc_foo_bar :: step_context where
  "sc_foo_bar =
     \<lparr>sc_dependencies = [pv_foo_rc1, pv_foo, pv_bar],
      sc_paths = [[to_tuple pv_foo_rc1, to_tuple pv_bar], [to_tuple pv_foo, to_tuple pv_bar]]\<rparr>"

definition step_no_prereleases :: cut_pre_releases where
  "step_no_prereleases = \<lparr>prereleases_allowed = False, DEBUG_SKIP_REPORTED = False\<rparr>"

section \<open>Theorems\<close>

subsection \<open>run.py\<close>

text \<open>
  What the parent does with the status it reads: it returns it as it is, and for a
  status that is not zero it sets \<open>error\<close>, clears \<open>report\<close> and chooses the message
  by comparing the status with 137, then by the kill file.
\<close>

lemma subprocess_run_parent_on_status:
  "ro_end (subprocess_run_parent status kill_file rd) = Returns status
   \<and> (status \<noteq> 0 \<longrightarrow>
         ro_result_dict (subprocess_run_parent status kill_file rd) ''error''
           = Some (VBool True)
       \<and> ro_result_dict (subprocess_run_parent status kill_file rd) ''report''
           = Some VNone
       \<and> ro_result_dict (subprocess_run_parent status kill_file rd) ''error_msg''
           = Some (VStr (if status = 137 then OOM_MSG
                         else if kill_file then CPU_MSG else UNKNOWN_MSG))
       \<and> ro_printed (subprocess_run_parent status kill_file rd)
           = [ro_result_dict (subprocess_run_parent status kill_file rd)])"
  by (simp add: subprocess_run_parent_def Let_def)

text \<open>
  Claim C9. The claim has the parent return the exit code of the child and give the OOM
  message for exit code 137 (the code of a process killed by signal 9). The parent
  compares and returns the status of \<open>os.waitpid\<close> undecoded. When \<open>asa\<close> raises, the
  child leaves through \<open>sys.exit(1)\<close> and the parent returns 256, not 1. A child that
  exits with code 137 gives the status 35072, and a child killed by signal 9 gives the
  status 9: in both cases, without the kill file, the message is the one for an unknown
  error, and the value returned is not 137.
\<close>

theorem subprocess_run_returns_undecoded_status:
  "ro_end (subprocess_run 0 (Inl ''asa failed'') (Exited 1) False Map.empty) = SysExit 1
   \<and> ro_end (subprocess_run 4242 (Inl ''asa failed'') (Exited 1) False Map.empty)
       = Returns 256
   \<and> ro_end (subprocess_run 4242 (Inr ()) (Exited 137) False Map.empty) = Returns 35072
   \<and> ro_result_dict (subprocess_run 4242 (Inr ()) (Exited 137) False Map.empty) ''error_msg''
       = Some (VStr UNKNOWN_MSG)
   \<and> ro_end (subprocess_run 4242 (Inr ()) (Signaled 9 False) False Map.empty) = Returns 9
   \<and> ro_result_dict (subprocess_run 4242 (Inr ()) (Signaled 9 False) False Map.empty)
        ''error_msg''
       = Some (VStr UNKNOWN_MSG)"
  by (simp add: subprocess_run_def subprocess_run_child_def subprocess_run_parent_def
        waitpid_status_def Let_def)

subsection \<open>heapq keeps the length of the list\<close>

declare siftdown_loop.simps [simp del]
declare siftup_loop.simps [simp del]

lemma length_siftdown_loop [simp]:
  "length (siftdown_loop heap startpos pos newitem) = length heap"
proof (induction heap startpos pos newitem rule: siftdown_loop.induct)
  case (1 heap startpos pos newitem)
  show ?case
    by (subst siftdown_loop.simps) (simp add: Let_def 1)
qed

lemma length_siftup_loop [simp]:
  "length (fst (siftup_loop heap pos)) = length heap"
proof (induction heap pos rule: siftup_loop.induct)
  case (1 heap pos)
  show ?case
    by (subst siftup_loop.simps) (simp add: Let_def 1)
qed

lemma length_siftdown [simp]: "length (siftdown heap startpos pos) = length heap"
  by (simp add: siftdown_def)

lemma length_siftup [simp]: "length (siftup heap pos) = length heap"
  by (simp add: siftup_def Let_def split: prod.split)
     (metis fst_conv length_siftup_loop)

lemma length_heappush [simp]: "length (heappush heap item) = Suc (length heap)"
  by (simp add: heappush_def)

lemma length_heappushpop [simp]: "length (fst (heappushpop heap item)) = length heap"
  by (simp add: heappushpop_def)

subsection \<open>advise.py\<close>

text \<open>A round of the loop changes the heap and the counter only.\<close>

lemma compute_step_frame:
  "(fst (compute_step a y))\<lparr>a_computed_stacks_heap := [], a_visited := 0\<rparr>
     = a\<lparr>a_computed_stacks_heap := [], a_visited := 0\<rparr>"
  by (simp add: compute_step_def Let_def split: prod.split option.split)

lemma compute_loop_frame:
  "(fst (compute_loop a ys wend))\<lparr>a_computed_stacks_heap := [], a_visited := 0\<rparr>
     = a\<lparr>a_computed_stacks_heap := [], a_visited := 0\<rparr>"
proof (induction ys arbitrary: a)
  case Nil
  show ?case by simp
next
  case (Cons y ys)
  obtain a' r where step: "compute_step a y = (a', r)" by (cases "compute_step a y")
  have frame: "a'\<lparr>a_computed_stacks_heap := [], a_visited := 0\<rparr>
     = a\<lparr>a_computed_stacks_heap := [], a_visited := 0\<rparr>"
    using compute_step_frame [of a y] step by simp
  show ?case
    using step frame Cons.IH [of a'] by (cases r) auto
qed

lemma compute_step_count [simp]: "a_count (fst (compute_step a y)) = a_count a"
  by (simp add: compute_step_def Let_def split: prod.split option.split)

lemma compute_step_heap_bound:
  assumes "a_count a = Some c" and "int (length (a_computed_stacks_heap a)) \<le> c"
  shows "int (length (a_computed_stacks_heap (fst (compute_step a y)))) \<le> c"
  using assms by (simp add: compute_step_def Let_def split: prod.split option.split)

lemma compute_loop_heap_bound:
  assumes "a_count a = Some c" and "int (length (a_computed_stacks_heap a)) \<le> c"
  shows "int (length (a_computed_stacks_heap (fst (compute_loop a ys wend)))) \<le> c"
  using assms
proof (induction ys arbitrary: a)
  case Nil
  then show ?case by simp
next
  case (Cons y ys)
  obtain a' r where step: "compute_step a y = (a', r)" by (cases "compute_step a y")
  have c': "a_count a' = Some c"
    using compute_step_count [of a y] step Cons.prems by simp
  have b': "int (length (a_computed_stacks_heap a')) \<le> c"
    using compute_step_heap_bound [OF Cons.prems, of y] step by simp
  show ?case
    using step c' b' Cons.IH [of a'] by (cases r) auto
qed

lemma compute_post_state:
  "snd (compute fill a (Inr (ys, wend)))
     = a\<lparr>a_computed_stacks_heap := [], a_visited := 0\<rparr>"
proof -
  obtain a' r where loop: "compute_loop a ys wend = (a', r)"
    by (cases "compute_loop a ys wend")
  have "a'\<lparr>a_computed_stacks_heap := [], a_visited := 0\<rparr>
          = a\<lparr>a_computed_stacks_heap := [], a_visited := 0\<rparr>"
    using compute_loop_frame [of a ys wend] loop by simp
  then show ?thesis
    using loop by (cases r) (simp_all add: compute_def)
qed

lemma compute_returned_list:
  assumes "compute fill a (Inr (ys, wend)) = (Inr res, a')"
  shows "res = map (\<lambda>item. (fst (snd item), fill (snd (snd item))))
                 (sorted_stacks (fst (compute_loop a ys wend)))"
  using assms
  by (cases "compute_loop a ys wend") (auto simp: compute_def split: option.splits)

text \<open>
  Claim C3, as amended. When \<open>count\<close> is set and the heap starts with at most \<open>count\<close>
  items (it starts empty), the heap holds at most \<open>count\<close> items after any number \<open>k\<close>
  of rounds of the loop. The list \<open>compute\<close> returns is the heap at the exit of the
  loop, rearranged by \<open>sorted\<close> into ascending order of score (lowest score first), each
  item mapped to \<open>(reasoning, fill_package_digests(project))\<close>.
\<close>

theorem compute_heap_bounded_result_ascending:
  assumes "a_count a = Some c" and "int (length (a_computed_stacks_heap a)) \<le> c"
  shows "(\<forall>k. int (length (a_computed_stacks_heap (fst (compute_loop a (take k ys) None)))) \<le> c)
       \<and> (\<forall>res a'. compute fill a (Inr (ys, wend)) = (Inr res, a') \<longrightarrow>
             res = map (\<lambda>item. (fst (snd item), fill (snd (snd item))))
                       (sorted_stacks (fst (compute_loop a ys wend))))
       \<and> sorted (map fst (sorted_stacks (fst (compute_loop a ys wend))))
       \<and> mset (sorted_stacks (fst (compute_loop a ys wend)))
           = mset (a_computed_stacks_heap (fst (compute_loop a ys wend)))"
proof -
  have bound: "\<forall>k. int (length (a_computed_stacks_heap
                     (fst (compute_loop a (take k ys) None)))) \<le> c"
    using compute_loop_heap_bound [OF assms] by blast
  have res: "\<forall>res a'. compute fill a (Inr (ys, wend)) = (Inr res, a') \<longrightarrow>
             res = map (\<lambda>item. (fst (snd item), fill (snd (snd item))))
                       (sorted_stacks (fst (compute_loop a ys wend)))"
    using compute_returned_list by blast
  have asc: "sorted (map fst (sorted_stacks (fst (compute_loop a ys wend))))"
    by (simp add: sorted_stacks_def)
  have perm: "mset (sorted_stacks (fst (compute_loop a ys wend)))
           = mset (a_computed_stacks_heap (fst (compute_loop a ys wend)))"
    by (simp add: sorted_stacks_def)
  show ?thesis using bound res asc perm by blast
qed

theorem compute_heap_bounded_result_ascending_witness:
  "a_count adviser_c2 = Some 2
   \<and> int (length (a_computed_stacks_heap adviser_c2)) \<le> 2
   \<and> int (length (a_computed_stacks_heap
                    (fst (compute_loop adviser_c2 (take 4 five_stacks) None)))) \<le> 2
   \<and> compute id adviser_c2 (Inr (five_stacks, None))
       = (Inr [(''r5'', ''p5''), (''r3'', ''p3'')], adviser_c2)
   \<and> sorted (map fst (sorted_stacks (fst (compute_loop adviser_c2 five_stacks None))))"
proof -
  have c: "a_count adviser_c2 = Some 2" and l: "int (length (a_computed_stacks_heap adviser_c2)) \<le> 2"
    by (simp_all add: adviser_c2_def)
  have run: "compute id adviser_c2 (Inr (five_stacks, None))
       = (Inr [(''r5'', ''p5''), (''r3'', ''p3'')], adviser_c2)"
    by code_simp
  show ?thesis
    using compute_heap_bounded_result_ascending [OF c l, of five_stacks id None] c l run
    by blast
qed

text \<open>
  Claim C3 as stated fails: with \<open>count = 2\<close> and the five stacks above, the two stacks
  kept are returned with the lower score (0.625) before the higher one (0.75).
\<close>

theorem compute_result_descending_counterexample:
  "sorted_stacks (fst (compute_loop adviser_c2 five_stacks None))
     = [(0.625, ''r5'', ''p5''), (0.75, ''r3'', ''p3'')]
   \<and> fst (compute id adviser_c2 (Inr (five_stacks, None)))
     = Inr [(''r5'', ''p5''), (''r3'', ''p3'')]
   \<and> \<not> ordered_by_score_descending
         (sorted_stacks (fst (compute_loop adviser_c2 five_stacks None)))"
  by code_simp

text \<open>
  Claim C4. The claim bounds the rounds of the loop by \<open>limit\<close>. The loop compares the
  counter with \<open>count\<close> instead: with \<open>limit = 1\<close>, \<open>count = 3\<close> and five stacks to
  visit, it leaves after three rounds.
\<close>

theorem compute_loop_breaks_at_count_not_limit:
  "a_limit adviser_c3_l1 = Some 1
   \<and> a_visited (fst (compute_loop adviser_c3_l1 five_stacks None)) = 3"
  by code_simp

text \<open>
  Claim C10. Once the \<open>try\<close> statement is entered, every exit of \<open>compute\<close> (return,
  exception of the walk, exception inside the loop) leaves the adviser with an empty heap
  and the counter 0, its other attributes unchanged. An adviser that starts that way (as
  constructed by default, or after an earlier \<open>compute\<close>) is therefore left exactly as
  it was by every call, also one in which \<open>from_project\<close> raises before the \<open>try\<close>:
  a call that follows another one starts from the state in which the call after it will
  start.
\<close>

theorem compute_resets_heap_and_visited:
  "a_computed_stacks_heap (snd (compute fill a (Inr (ys, wend)))) = []
   \<and> a_visited (snd (compute fill a (Inr (ys, wend)))) = 0
   \<and> snd (compute fill a (Inr (ys, wend)))
       = a\<lparr>a_computed_stacks_heap := [], a_visited := 0\<rparr>
   \<and> (a_computed_stacks_heap a = [] \<and> a_visited a = 0 \<longrightarrow>
         snd (compute fill a graph) = a)
   \<and> snd (compute fill (snd (compute fill a (Inr (ys, wend)))) graph)
       = snd (compute fill a (Inr (ys, wend)))"
proof -
  have post: "snd (compute fill a (Inr (ys, wend)))
       = a\<lparr>a_computed_stacks_heap := [], a_visited := 0\<rparr>"
    by (rule compute_post_state)
  have same: "snd (compute fill b graph) = b"
    if "a_computed_stacks_heap b = [] \<and> a_visited b = 0" for b
  proof (cases graph)
    case (Inl e)
    then show ?thesis by (simp add: compute_def)
  next
    case (Inr w)
    obtain zs e where w: "w = (zs, e)" by (cases w)
    have "snd (compute fill b graph) = b\<lparr>a_computed_stacks_heap := [], a_visited := 0\<rparr>"
      using Inr w compute_post_state [of fill b zs e] by simp
    also have "\<dots> = b" using that by simp
    finally show ?thesis .
  qed
  have again: "snd (compute fill (snd (compute fill a (Inr (ys, wend)))) graph)
       = snd (compute fill a (Inr (ys, wend)))"
    by (rule same) (simp add: post)
  show ?thesis using post same [of a] again by simp
qed

theorem compute_resets_heap_and_visited_witness:
  "a_computed_stacks_heap
     (snd (compute id adviser_c2 (Inr (five_stacks, Some (OtherException ''walk failed''))))) = []
   \<and> a_visited
     (snd (compute id adviser_c2 (Inr (five_stacks, Some (OtherException ''walk failed''))))) = 0
   \<and> fst (compute id adviser_c2 (Inr (five_stacks, Some (OtherException ''walk failed''))))
       = Inl (OtherException ''walk failed'')
   \<and> a_computed_stacks_heap adviser_c2 = [] \<and> a_visited adviser_c2 = 0
   \<and> snd (compute id adviser_c2 (Inr (five_stacks, Some (OtherException ''walk failed''))))
       = adviser_c2"
proof -
  have start: "a_computed_stacks_heap adviser_c2 = [] \<and> a_visited adviser_c2 = 0"
    by (simp add: adviser_c2_def)
  have raised: "fst (compute id adviser_c2
                      (Inr (five_stacks, Some (OtherException ''walk failed''))))
       = Inl (OtherException ''walk failed'')"
    by code_simp
  show ?thesis
    using compute_resets_heap_and_visited
            [of id adviser_c2 five_stacks "Some (OtherException ''walk failed'')"
                "Inr (five_stacks, Some (OtherException ''walk failed''))"]
          start raised
    by blast
qed


subsection \<open>prereleases.py\<close>

text \<open>
  Claim C8. When the project does not allow pre-releases, \<open>run\<close> hands the tuple of
  every package version with a pre-release component to \<open>remove_package_tuple\<close>; after
  the change no package version of the context has a pre-release component, and no path
  goes through the tuple of a package version that had one. (A version with a build
  component is removed in the same way.)
\<close>

theorem cut_pre_releases_run_removes_prereleases:
  assumes "\<not> prereleases_allowed self"
  shows "(\<forall>pv \<in> set (sc_dependencies sc).
            prerelease (pv_semantic_version pv) \<noteq> [] \<longrightarrow>
              to_tuple pv \<in> set (tuples_to_remove sc))
       \<and> (\<forall>pv \<in> set (sc_dependencies (snd (cut_pre_releases_run self sc))).
            prerelease (pv_semantic_version pv) = [])
       \<and> (\<forall>pv \<in> set (sc_dependencies sc).
            prerelease (pv_semantic_version pv) \<noteq> [] \<longrightarrow>
              (\<forall>path \<in> set (sc_paths (snd (cut_pre_releases_run self sc))).
                 to_tuple pv \<notin> set path))"
proof -
  have called: "\<forall>pv \<in> set (sc_dependencies sc).
            prerelease (pv_semantic_version pv) \<noteq> [] \<longrightarrow>
              to_tuple pv \<in> set (tuples_to_remove sc)"
    by (auto simp: tuples_to_remove_def)
  have post: "snd (cut_pre_releases_run self sc)
                = remove_package_tuples sc (tuples_to_remove sc)"
    using assms by (simp add: cut_pre_releases_run_def)
  have deps: "\<forall>pv \<in> set (sc_dependencies (remove_package_tuples sc (tuples_to_remove sc))).
            prerelease (pv_semantic_version pv) = []"
    by (auto simp: remove_package_tuples_def tuples_to_remove_def)
  have paths: "\<forall>pv \<in> set (sc_dependencies sc).
            prerelease (pv_semantic_version pv) \<noteq> [] \<longrightarrow>
              (\<forall>path \<in> set (sc_paths (remove_package_tuples sc (tuples_to_remove sc))).
                 to_tuple pv \<notin> set path)"
    using called by (auto simp: remove_package_tuples_def list_all_iff)
  show ?thesis
    unfolding post using called deps paths by blast
qed

theorem cut_pre_releases_run_removes_prereleases_witness:
  "\<not> prereleases_allowed step_no_prereleases
   \<and> pv_foo_rc1 \<in> set (sc_dependencies sc_foo_bar)
   \<and> prerelease (pv_semantic_version pv_foo_rc1) \<noteq> []
   \<and> to_tuple pv_foo_rc1 \<in> set (tuples_to_remove sc_foo_bar)
   \<and> snd (cut_pre_releases_run step_no_prereleases sc_foo_bar)
       = \<lparr>sc_dependencies = [pv_foo, pv_bar],
          sc_paths = [[to_tuple pv_foo, to_tuple pv_bar]]\<rparr>"
proof -
  have h: "\<not> prereleases_allowed step_no_prereleases"
    by (simp add: step_no_prereleases_def)
  have m: "pv_foo_rc1 \<in> set (sc_dependencies sc_foo_bar)"
    by (simp add: sc_foo_bar_def)
  have p: "prerelease (pv_semantic_version pv_foo_rc1) \<noteq> []"
    by (simp add: pv_foo_rc1_def)
  have r: "snd (cut_pre_releases_run step_no_prereleases sc_foo_bar)
       = \<lparr>sc_dependencies = [pv_foo, pv_bar],
          sc_paths = [[to_tuple pv_foo, to_tuple pv_bar]]\<rparr>"
    by code_simp
  show ?thesis
    using cut_pre_releases_run_removes_prereleases [OF h, of sc_foo_bar] h m p r by blast
qed


subsection \<open>The policy store\<close>

lemma map_of_credit_one:
  "map_of (credit_one pol pt r) k =
     (if k = KTuple pt
      then Some (fst (setdefault_record pol pt) + r, snd (setdefault_record pol pt) + 1)
      else map_of pol k)"
  by (simp add: credit_one_def Let_def update_conv')

lemma setdefault_record_credit_one_other:
  "q \<noteq> pt \<Longrightarrow> setdefault_record (credit_one pol pt r) q = setdefault_record pol q"
  by (simp add: setdefault_record_def map_of_credit_one)

lemma setdefault_record_credit_one_same:
  "setdefault_record (credit_one pol pt r) pt
     = (fst (setdefault_record pol pt) + r, snd (setdefault_record pol pt) + 1)"
  by (simp add: setdefault_record_def map_of_credit_one)

lemma map_of_credit_other:
  "k \<notin> KTuple ` set pts \<Longrightarrow> map_of (credit pol pts r) k = map_of pol k"
  by (induction pts arbitrary: pol) (auto simp: map_of_credit_one)

text \<open>Every occurrence of a package tuple in the list adds the reward and 1 to its record.\<close>

lemma map_of_credit_member:
  "pt \<in> set pts \<Longrightarrow>
     map_of (credit pol pts r) (KTuple pt)
       = Some (fst (setdefault_record pol pt) + real (count_list pts pt) * r,
               snd (setdefault_record pol pt) + int (count_list pts pt))"
proof (induction pts arbitrary: pol)
  case Nil
  then show ?case by simp
next
  case (Cons p pts)
  show ?case
  proof (cases "pt \<in> set pts")
    case True
    show ?thesis
    proof (cases "pt = p")
      case same: True
      show ?thesis
        using Cons.IH [OF True, of "credit_one pol p r"] same
        by (simp add: setdefault_record_credit_one_same algebra_simps)
    next
      case False
      then show ?thesis
        using Cons.IH [OF True, of "credit_one pol p r"]
        by (simp add: setdefault_record_credit_one_other)
    qed
  next
    case False
    then have eq: "pt = p" using Cons.prems by simp
    have "KTuple pt \<notin> KTuple ` set pts" using False by auto
    then show ?thesis
      using eq False by (simp add: map_of_credit_other map_of_credit_one)
  qed
qed

lemma count_list_distinct:
  "distinct xs \<Longrightarrow> x \<in> set xs \<Longrightarrow> count_list xs x = 1"
  by (induction xs) auto







subsection \<open>td.py\<close>

lemma td_set_reward_signal_finite:
  "td_set_reward_signal n ctx self st (Fin r)
     = self\<lparr>td_policy :=
              (if n \<noteq> 0 \<and> iteration ctx mod 1024 = 0
               then shrink n (credit (td_policy self) (iter_resolved_dependencies st) r)
               else credit (td_policy self) (iter_resolved_dependencies st) r)\<rparr>"
  by (simp add: td_set_reward_signal_def Let_def)

lemma exploitation_loop_misses:
  "exploitation_loop pol pts None None = Inr (None, None)
   \<or> exploitation_loop pol pts None None = Inl AttributeError"
  by (induction pts) (auto simp: reward_records_of_def split: option.splits)

text \<open>
  The choice of \<open>_do_exploitation\<close> never comes from the policy store: whatever the
  store holds, the call ends in the random fallback or in \<open>AttributeError\<close>.
\<close>

lemma do_exploitation_never_uses_policy:
  "do_exploitation rnd self st = Inr (st, rnd st)
   \<or> do_exploitation rnd self st = Inl AttributeError"
  using exploitation_loop_misses [of "td_policy self" "iter_unresolved_dependencies st"]
  by (auto simp: do_exploitation_def)

text \<open>
  Claim C1. The claim asks for the unresolved dependency with the highest average reward.
  After the reward signals 1 for flask and 5 for numpy the store holds both records, and
  for the state with flask and numpy unresolved the answer the claim describes is numpy
  (average 5 against 1). \<open>_do_exploitation\<close> looks the package name up in a store
  keyed by package tuples, finds nothing, and returns what the random fallback picks,
  here flask.
\<close>

theorem do_exploitation_misses_learnt_policy:
  "td_policy td_learnt = [(KTuple pkg_flask, 1, 1), (KTuple pkg_numpy, 5, 1)]
   \<and> highest_average_dependency (td_policy td_learnt) state_both_unresolved = Some pkg_numpy
   \<and> do_exploitation pick_flask td_learnt state_both_unresolved
       = Inr (state_both_unresolved, pkg_flask)"
  by code_simp

text \<open>
  Claim C6. A reward that is NaN or infinite leaves the predictor as it is. For a finite
  reward \<open>r\<close> the policy becomes the old one in which every resolved package tuple has
  \<open>r\<close> added to its reward sum and 1 to its count, once per occurrence among the
  resolved dependencies (they are the keys of a mapping, so once), a missing record
  starting from \<open>[0.0, 0]\<close>, and every other key as it was; this policy then goes
  through the periodic shrinking, which is the identity unless the policy size is set and
  the iteration is a multiple of 1024.
\<close>

theorem td_set_reward_signal_credits_resolved:
  "(isnan reward \<or> isinf reward \<longrightarrow> td_set_reward_signal n ctx self st reward = self)
   \<and> td_policy (td_set_reward_signal n ctx self st (Fin r))
       = (if n \<noteq> 0 \<and> iteration ctx mod 1024 = 0
          then shrink n (credit (td_policy self) (iter_resolved_dependencies st) r)
          else credit (td_policy self) (iter_resolved_dependencies st) r)
   \<and> td_a (td_set_reward_signal n ctx self st (Fin r)) = td_a self
   \<and> (\<forall>pt \<in> set (iter_resolved_dependencies st).
         map_of (credit (td_policy self) (iter_resolved_dependencies st) r) (KTuple pt)
           = Some (fst (setdefault_record (td_policy self) pt)
                     + real (count_list (iter_resolved_dependencies st) pt) * r,
                   snd (setdefault_record (td_policy self) pt)
                     + int (count_list (iter_resolved_dependencies st) pt)))
   \<and> (distinct (iter_resolved_dependencies st) \<longrightarrow>
        (\<forall>pt \<in> set (iter_resolved_dependencies st).
           map_of (credit (td_policy self) (iter_resolved_dependencies st) r) (KTuple pt)
             = Some (fst (setdefault_record (td_policy self) pt) + r,
                     snd (setdefault_record (td_policy self) pt) + 1)))
   \<and> (\<forall>k. k \<notin> KTuple ` set (iter_resolved_dependencies st) \<longrightarrow>
         map_of (credit (td_policy self) (iter_resolved_dependencies st) r) k
           = map_of (td_policy self) k)"
proof -
  have noop: "isnan reward \<or> isinf reward \<longrightarrow> td_set_reward_signal n ctx self st reward = self"
    by (simp add: td_set_reward_signal_def)
  have pol: "td_policy (td_set_reward_signal n ctx self st (Fin r))
       = (if n \<noteq> 0 \<and> iteration ctx mod 1024 = 0
          then shrink n (credit (td_policy self) (iter_resolved_dependencies st) r)
          else credit (td_policy self) (iter_resolved_dependencies st) r)"
    by (simp add: td_set_reward_signal_finite)
  have slope: "td_a (td_set_reward_signal n ctx self st (Fin r)) = td_a self"
    by (simp add: td_set_reward_signal_finite)
  have each: "\<forall>pt \<in> set (iter_resolved_dependencies st).
         map_of (credit (td_policy self) (iter_resolved_dependencies st) r) (KTuple pt)
           = Some (fst (setdefault_record (td_policy self) pt)
                     + real (count_list (iter_resolved_dependencies st) pt) * r,
                   snd (setdefault_record (td_policy self) pt)
                     + int (count_list (iter_resolved_dependencies st) pt))"
    using map_of_credit_member by blast
  have once: "distinct (iter_resolved_dependencies st) \<longrightarrow>
        (\<forall>pt \<in> set (iter_resolved_dependencies st).
           map_of (credit (td_policy self) (iter_resolved_dependencies st) r) (KTuple pt)
             = Some (fst (setdefault_record (td_policy self) pt) + r,
                     snd (setdefault_record (td_policy self) pt) + 1))"
    using each by (simp add: count_list_distinct)
  have others: "\<forall>k. k \<notin> KTuple ` set (iter_resolved_dependencies st) \<longrightarrow>
         map_of (credit (td_policy self) (iter_resolved_dependencies st) r) k
           = map_of (td_policy self) k"
    using map_of_credit_other by blast
  show ?thesis using noop pol slope each once others by blast
qed

theorem td_set_reward_signal_credits_resolved_witness:
  "isnan NaN \<and> td_set_reward_signal 0 (ctx_iteration 3) td_learnt state_both_resolved NaN
       = td_learnt
   \<and> isinf PInf \<and> td_set_reward_signal 0 (ctx_iteration 3) td_learnt state_both_resolved PInf
       = td_learnt
   \<and> td_policy (td_set_reward_signal 0 (ctx_iteration 3) td_learnt state_both_resolved (Fin 2))
       = [(KTuple pkg_flask, 3, 2), (KTuple pkg_numpy, 7, 2)]
   \<and> distinct (iter_resolved_dependencies state_both_resolved)
   \<and> pkg_numpy \<in> set (iter_resolved_dependencies state_both_resolved)
   \<and> setdefault_record (td_policy td_learnt) pkg_numpy = (5, 1)
   \<and> map_of (credit (td_policy td_learnt) (iter_resolved_dependencies state_both_resolved) 2)
        (KTuple pkg_numpy) = Some (5 + 2, 1 + 1)
   \<and> KName ''numpy'' \<notin> KTuple ` set (iter_resolved_dependencies state_both_resolved)
   \<and> map_of (credit (td_policy td_learnt) (iter_resolved_dependencies state_both_resolved) 2)
        (KName ''numpy'') = map_of (td_policy td_learnt) (KName ''numpy'')"
proof -
  have nan: "isnan NaN" and inf: "isinf PInf" by simp_all
  have d: "distinct (iter_resolved_dependencies state_both_resolved)"
    by code_simp
  have m: "pkg_numpy \<in> set (iter_resolved_dependencies state_both_resolved)"
    by (simp add: state_both_resolved_def)
  have s: "setdefault_record (td_policy td_learnt) pkg_numpy = (5, 1)"
    by code_simp
  have p: "td_policy (td_set_reward_signal 0 (ctx_iteration 3) td_learnt state_both_resolved (Fin 2))
       = [(KTuple pkg_flask, 3, 2), (KTuple pkg_numpy, 7, 2)]"
    by code_simp
  have k: "KName ''numpy'' \<notin> KTuple ` set (iter_resolved_dependencies state_both_resolved)"
    by auto
  note t1 = td_set_reward_signal_credits_resolved
              [of NaN 0 "ctx_iteration 3" td_learnt state_both_resolved 2]
  note t2 = td_set_reward_signal_credits_resolved
              [of PInf 0 "ctx_iteration 3" td_learnt state_both_resolved 2]
  have a1: "td_set_reward_signal 0 (ctx_iteration 3) td_learnt state_both_resolved NaN = td_learnt"
    using t1 nan by blast
  have a2: "td_set_reward_signal 0 (ctx_iteration 3) td_learnt state_both_resolved PInf = td_learnt"
    using t2 inf by blast
  have a3: "map_of (credit (td_policy td_learnt) (iter_resolved_dependencies state_both_resolved) 2)
        (KTuple pkg_numpy) = Some (5 + 2, 1 + 1)"
    using t1 d m s by auto
  have a4: "map_of (credit (td_policy td_learnt) (iter_resolved_dependencies state_both_resolved) 2)
        (KName ''numpy'') = map_of (td_policy td_learnt) (KName ''numpy'')"
    using t1 k by blast
  show ?thesis using nan inf a1 a2 a3 a4 d m s p k by blast
qed

text \<open>
  Claim C7, as amended. With no accepted final state the temperature is 0.0. With one
  accepted final state and an incoming temperature of 0.0 the coefficient \<open>_a\<close> becomes
  \<open>0.5 * iteration / accepted_final_states_count * limit\<close> and the temperature is
  \<open>limit\<close>. Otherwise the temperature is \<open>max((-limit / a) * iteration + limit, 0.0)\<close>
  when \<open>_a\<close> is not zero; when \<open>_a\<close> is zero the division raises
  \<open>ZeroDivisionError\<close>.
\<close>

theorem temperature_function_cases:
  "(accepted_final_states_count ctx = 0 \<longrightarrow>
      temperature_function self t0 ctx = Inr (0, self))
   \<and> (t0 = 0 \<and> accepted_final_states_count ctx = 1 \<longrightarrow>
      temperature_function self t0 ctx
        = Inr (real_of_int (limit ctx),
               self\<lparr>td_a := 0.5 * real_of_int (iteration ctx)
                               / real_of_int (accepted_final_states_count ctx)
                               * real_of_int (limit ctx)\<rparr>))
   \<and> (accepted_final_states_count ctx \<noteq> 0
        \<and> \<not> (t0 = 0 \<and> accepted_final_states_count ctx = 1) \<and> td_a self \<noteq> 0 \<longrightarrow>
      temperature_function self t0 ctx
        = Inr (max ((- real_of_int (limit ctx) / td_a self) * real_of_int (iteration ctx)
                      + real_of_int (limit ctx)) 0,
               self))
   \<and> (accepted_final_states_count ctx \<noteq> 0
        \<and> \<not> (t0 = 0 \<and> accepted_final_states_count ctx = 1) \<and> td_a self = 0 \<longrightarrow>
      temperature_function self t0 ctx = Inl ZeroDivisionError)"
  by (simp add: temperature_function_def)

theorem temperature_function_cases_witness:
  "temperature_function td_fresh 7 (ctx_iteration 3) = Inr (0, td_fresh)
   \<and> temperature_function td_fresh 0
        \<lparr>iteration = 40, accepted_final_states_count = 1, limit = 100\<rparr>
       = Inr (100, td_fresh\<lparr>td_a := 2000\<rparr>)
   \<and> temperature_function (td_fresh\<lparr>td_a := 2000\<rparr>) 100
        \<lparr>iteration = 50, accepted_final_states_count = 1, limit = 100\<rparr>
       = Inr (97.5, td_fresh\<lparr>td_a := 2000\<rparr>)
   \<and> temperature_function (td_fresh\<lparr>td_a := 0\<rparr>) 100
        \<lparr>iteration = 50, accepted_final_states_count = 2, limit = 100\<rparr>
       = Inl ZeroDivisionError"
proof -
  have b1: "temperature_function td_fresh 7 (ctx_iteration 3) = Inr (0, td_fresh)"
    using temperature_function_cases [of "ctx_iteration 3" td_fresh 7]
    by (simp add: ctx_iteration_def)
  have b2: "temperature_function td_fresh 0
        \<lparr>iteration = 40, accepted_final_states_count = 1, limit = 100\<rparr>
       = Inr (100, td_fresh\<lparr>td_a := 2000\<rparr>)"
    using temperature_function_cases
            [of "\<lparr>iteration = 40, accepted_final_states_count = 1, limit = 100\<rparr>" td_fresh 0]
    by simp
  have b3: "temperature_function (td_fresh\<lparr>td_a := 2000\<rparr>) 100
        \<lparr>iteration = 50, accepted_final_states_count = 1, limit = 100\<rparr>
       = Inr (97.5, td_fresh\<lparr>td_a := 2000\<rparr>)"
    using temperature_function_cases
            [of "\<lparr>iteration = 50, accepted_final_states_count = 1, limit = 100\<rparr>"
                "td_fresh\<lparr>td_a := 2000\<rparr>" 100]
    by simp
  have b4: "temperature_function (td_fresh\<lparr>td_a := 0\<rparr>) 100
        \<lparr>iteration = 50, accepted_final_states_count = 2, limit = 100\<rparr>
       = Inl ZeroDivisionError"
    using temperature_function_cases
            [of "\<lparr>iteration = 50, accepted_final_states_count = 2, limit = 100\<rparr>"
                "td_fresh\<lparr>td_a := 0\<rparr>" 100]
    by simp
  show ?thesis using b1 b2 b3 b4 by blast
qed

text \<open>
  Claim C7 as stated fails where \<open>_a\<close> is zero. The function sets \<open>_a\<close> to zero itself
  when the first final state is accepted at iteration 0; the next call then divides by
  it and raises instead of returning a temperature.
\<close>

theorem temperature_function_zero_slope_counterexample:
  "temperature_function td_fresh 0
       \<lparr>iteration = 0, accepted_final_states_count = 1, limit = 10\<rparr>
     = Inr (10, td_fresh\<lparr>td_a := 0\<rparr>)
   \<and> temperature_function (td_fresh\<lparr>td_a := 0\<rparr>) 10
       \<lparr>iteration = 1, accepted_final_states_count = 1, limit = 10\<rparr>
     = Inl ZeroDivisionError"
  by code_simp

subsection \<open>mcts.py\<close>



text \<open>
  Claim C2. The claim has a NaN reward clear \<open>_next_state\<close> and leave the policy alone.
  The \<open>if\<close> branch for NaN does not return, so the call goes on to credit the policy
  with the score of the state: from an empty policy, a NaN reward for a state of score 2
  that resolved flask and numpy leaves a record \<open>[2, 1]\<close> for each.
\<close>

theorem mcts_set_reward_signal_nan_credits_policy:
  "td_policy mcts_fresh = []
   \<and> mcts_set_reward_signal 0 (ctx_iteration 1) mcts_fresh state_both_resolved NaN
     = \<lparr>td_policy = [(KTuple pkg_flask, 2, 1), (KTuple pkg_numpy, 2, 1)], td_a = 1,
        next_state = None\<rparr>"
  by code_simp

subsection \<open>The size of the policy store\<close>




end
